theory Spec2Isabelle
  imports Main "HOL-Library.Multiset" "HOL-Library.Sublist" "HOL-Library.Word"
begin

section \<open>Data model\<close>

text \<open>
  The two services \<^verbatim>\<open>main.py\<close> (one model) and \<^verbatim>\<open>main_ensemble.py\<close> (three models)
  share their upload handler and differ in \<^verbatim>\<open>get_similar_chunks\<close> and \<^verbatim>\<open>ask_question\<close>.
  Everything a handler touches besides its arguments is a field of one state record,
  which every handler takes and returns.
\<close>

type_synonym bytes = "8 word list"

text \<open>
  Python exceptions. A handler's \<^verbatim>\<open>except Exception as e\<close> turns whatever was raised
  into \<^verbatim>\<open>HTTPException(status_code=500, detail=str(e))\<close>; the text of \<^verbatim>\<open>str(e)\<close> belongs
  to the library that raised \<^verbatim>\<open>e\<close>, so the detail keeps the exception itself.
\<close>

datatype exn =
    ClientError string
  | ParserError string
  | IndexError
  | FileNotFoundError
  | HTTPException nat detail
and detail =
    Text string
  | Str exn

text \<open>The rows of the two tables, with the columns the handlers read and write.\<close>

record File =
  file_id :: int
  file_name :: string
  file_content :: string

text \<open>
  \<^verbatim>\<open>FileChunk.file_id\<close> is the field \<open>chunk_file_id\<close> (a record of this theory cannot
  reuse the name \<open>file_id\<close>). The vector type \<open>'v\<close> is the store's.
\<close>

record 'v FileChunk =
  chunk_id :: int
  chunk_file_id :: int
  chunk_text :: string
  embedding_vector :: "'v"

record message =
  role :: string
  content :: string

record AskModel =
  document_id :: int
  question :: string

record UploadFile =
  filename :: string
  file_bytes :: bytes

text \<open>
  The remote client of \<^verbatim>\<open>chunks.py\<close>: \<^verbatim>\<open>client.embeddings.create(model, input)\<close> answers
  with the list \<^verbatim>\<open>response.data\<close> of embeddings, \<^verbatim>\<open>client.chat.completions.create(model,
  messages)\<close> with the list \<^verbatim>\<open>response.choices\<close> of message contents; either may raise.
  The client is a pair of functions: a deterministic stub of the two services.
\<close>

record 'v client =
  embeddings_create :: "string \<Rightarrow> string \<Rightarrow> exn + 'v list"
  chat_completions_create :: "string \<Rightarrow> message list \<Rightarrow> exn + string list"

text \<open>Every effect a handler has on the outside, in the order it happens.\<close>

datatype 'v event =
    EmbeddingsCreate string string
  | Select int "'v" nat
  | ChatCompletionsCreate string "message list"
  | LoggingInfo string
  | LoggingError exn
  | Print exn

record 'v world =
  environ :: "string \<rightharpoonup> string"
  files :: "File list"
  file_id_seq :: int
  file_chunks :: "'v FileChunk list"
  dirs :: "string set"
  fs :: "string \<rightharpoonup> bytes"
  background_tasks :: "(int \<times> string) list"
  trace :: "'v event list"

definition emit :: "'v event \<Rightarrow> 'v world \<Rightarrow> 'v world" where
  "emit e w = w\<lparr>trace := trace w @ [e]\<rparr>"

section \<open>String helpers of the Python library\<close>

text \<open>\<^verbatim>\<open>s.split(c)\<close> for a one-character separator: never empty, one more part than separators.\<close>

fun split_chr :: "char \<Rightarrow> string \<Rightarrow> string list" where
  "split_chr c [] = [[]]"
| "split_chr c (x # xs) =
     (if x = c then [] # split_chr c xs
      else (case split_chr c xs of
              [] \<Rightarrow> [[x]]
            | p # ps \<Rightarrow> (x # p) # ps))"

text \<open>\<^verbatim>\<open>sep.join(parts)\<close>.\<close>

fun join :: "string \<Rightarrow> string list \<Rightarrow> string" where
  "join sep [] = []"
| "join sep [x] = x"
| "join sep (x # y # ys) = x @ sep @ join sep (y # ys)"

text \<open>\<^verbatim>\<open>os.path.join(folder, name)\<close> on POSIX for a folder with no trailing slash.\<close>

definition os_path_join :: "string \<Rightarrow> string \<Rightarrow> string" where
  "os_path_join folder name =
     (case name of
        [] \<Rightarrow> folder @ ''/''
      | x # xs \<Rightarrow> if x = CHR ''/'' then name else folder @ ''/'' @ name)"

text \<open>
  \<^verbatim>\<open>os.path.dirname(path)\<close> on POSIX: what precedes the last slash, without its trailing
  slashes unless it consists of slashes only.
\<close>

definition os_path_dirname :: "string \<Rightarrow> string" where
  "os_path_dirname p =
     (let head = take (length p - length (last (split_chr CHR ''/'' p))) p
      in if filter (\<lambda>c. c \<noteq> CHR ''/'') head = [] then head
         else rev (dropWhile (\<lambda>c. c = CHR ''/'') (rev head)))"

section \<open>The upload handler (both services)\<close>

definition allowed_extensions :: "string list" where
  "allowed_extensions = [''txt'', ''pdf'']"

definition file_extension :: "string \<Rightarrow> string" where
  "file_extension name = last (split_chr CHR ''.'' name)"

definition folder :: string where
  "folder = ''sources''"

text \<open>
  \<^verbatim>\<open>upload_file\<close>. The parser of \<^verbatim>\<open>parsers.py\<close> is the parameter \<open>parse\<close> (path and the
  bytes stored there to text, or an exception); the primary key of the new row comes from
  the table's sequence. The result \<^verbatim>\<open>{"info": "File saved", "filename": ...}\<close> is the pair
  of its two values. \<^verbatim>\<open>open(file_location, "wb+")\<close> raises when the directory of the path
  does not exist (a file name with a directory part that was never created); directories
  are compared as written. The model takes the commit of the new row to succeed.
\<close>

definition upload_file ::
  "(string \<Rightarrow> bytes \<Rightarrow> exn + string) \<Rightarrow> UploadFile \<Rightarrow> 'v world
     \<Rightarrow> (exn + string \<times> string) \<times> 'v world" where
  "upload_file parse file w =
     (if file_extension (filename file) \<notin> set allowed_extensions
      then (Inl (HTTPException 400 (Text ''File type not allowed'')), w)
      else
        let w1 = w\<lparr>dirs := insert folder (dirs w)\<rparr>;
            file_location = os_path_join folder (filename file);
            file_content = file_bytes file;
            clean_file_content = filter (\<lambda>b. b \<noteq> 0) file_content
        in if os_path_dirname file_location \<notin> dirs w1
           then (Inl (HTTPException 500 (Text ''Error saving file'')),
                 emit (Print FileNotFoundError) w1)
           else
             let w2 = w1\<lparr>fs := (fs w1)(file_location \<mapsto> clean_file_content)\<rparr>
             in (case parse file_location clean_file_content of
                   Inl e \<Rightarrow>
                     (Inl (HTTPException 500 (Text ''Error saving file'')), emit (Print e) w2)
                 | Inr file_text_content \<Rightarrow>
                     let new_id = file_id_seq w2 + 1;
                         new_file = \<lparr>file_id = new_id, file_name = filename file,
                                     file_content = file_text_content\<rparr>;
                         w3 = w2\<lparr>files := files w2 @ [new_file], file_id_seq := new_id\<rparr>;
                         w4 = w3\<lparr>background_tasks :=
                                   background_tasks w3 @ [(new_id, file_text_content)]\<rparr>
                     in (Inr (''File saved'', filename file), w4)))"

section \<open>Retrieval\<close>

text \<open>
  The query \<^verbatim>\<open>select(FileChunk).where(FileChunk.file_id == file_id)
  .order_by(FileChunk.embedding_vector.l2_distance(q)).limit(n)\<close>. The distance operator
  of the store is the parameter \<open>l2_distance\<close>, into any linear order. The table is the
  list of its rows in the order the store scans them; \<^verbatim>\<open>ORDER BY\<close> has the distance as
  its only key, so the store may return rows at equal distance in any order. The model
  returns them in scan order (\<open>sort_key\<close> is stable), one of the orders the store may
  choose; what is proved of the result's order below holds of every such choice.
  The result count is a natural number (the handlers pass 5 and 10), and the model takes
  the session to be connected, so the query itself does not raise.
\<close>

definition select_chunks ::
  "('v \<Rightarrow> 'v \<Rightarrow> 'd::linorder) \<Rightarrow> int \<Rightarrow> 'v \<Rightarrow> nat \<Rightarrow> 'v FileChunk list \<Rightarrow> 'v FileChunk list" where
  "select_chunks l2_distance fid q n rows =
     take n (sort_key (\<lambda>c. l2_distance (embedding_vector c) q)
                      (filter (\<lambda>c. chunk_file_id c = fid) rows))"

definition embedding_model :: string where
  "embedding_model = ''BAAI/bge-en-icl''"

text \<open>\<^verbatim>\<open>get_similar_chunks(file_id, question, db, limit=5)\<close> of \<^verbatim>\<open>main_ensemble.py\<close>.\<close>

definition ensemble_get_similar_chunks ::
  "('v \<Rightarrow> 'v \<Rightarrow> 'd::linorder) \<Rightarrow> 'v client \<Rightarrow> int \<Rightarrow> string \<Rightarrow> nat \<Rightarrow> 'v world
     \<Rightarrow> (exn + 'v FileChunk list) \<times> 'v world" where
  "ensemble_get_similar_chunks l2_distance cl fid q limit w =
     (let w1 = emit (EmbeddingsCreate embedding_model q) w in
      case embeddings_create cl embedding_model q of
        Inl e \<Rightarrow> (Inl (HTTPException 500 (Str e)), w1)
      | Inr data \<Rightarrow>
          (case data of
             [] \<Rightarrow> (Inl (HTTPException 500 (Str IndexError)), w1)
           | question_embedding # _ \<Rightarrow>
               let w2 = emit (Select fid question_embedding limit) w1;
                   similar_chunks =
                     select_chunks l2_distance fid question_embedding limit (file_chunks w2)
               in (Inr similar_chunks, w2)))"

text \<open>\<^verbatim>\<open>get_similar_chunks(file_id, question, db)\<close> of \<^verbatim>\<open>main.py\<close>: the same with \<^verbatim>\<open>.limit(10)\<close>.\<close>

definition main_get_similar_chunks ::
  "('v \<Rightarrow> 'v \<Rightarrow> 'd::linorder) \<Rightarrow> 'v client \<Rightarrow> int \<Rightarrow> string \<Rightarrow> 'v world
     \<Rightarrow> (exn + 'v FileChunk list) \<times> 'v world" where
  "main_get_similar_chunks l2_distance cl fid q w =
     (let w1 = emit (EmbeddingsCreate embedding_model q) w in
      case embeddings_create cl embedding_model q of
        Inl e \<Rightarrow> (Inl (HTTPException 500 (Str e)), w1)
      | Inr data \<Rightarrow>
          (case data of
             [] \<Rightarrow> (Inl (HTTPException 500 (Str IndexError)), w1)
           | question_embedding # _ \<Rightarrow>
               let w2 = emit (Select fid question_embedding 10) w1;
                   similar_chunks =
                     select_chunks l2_distance fid question_embedding 10 (file_chunks w2)
               in (Inr similar_chunks, w2)))"

section \<open>Answering a question\<close>

definition primary_model :: string where
  "primary_model = ''Qwen/Qwen2.5-Coder-32B-Instruct''"

definition secondary_model :: string where
  "secondary_model = ''meta-llama/Meta-Llama-3.1-405B-Instruct''"

definition fusion_model :: string where
  "fusion_model = ''nvidia/Llama-3.1-Nemotron-70B-Instruct-HF''"

definition system_prefix :: string where
  "system_prefix =
     ''You are a helpful assistant. Here is the context to use to reply to the user question: ''"

text \<open>The two messages of a drafting call.\<close>

definition draft_messages :: "string \<Rightarrow> string \<Rightarrow> message list" where
  "draft_messages system_message q =
     [\<lparr>role = ''system'', content = system_message\<rparr>, \<lparr>role = ''user'', content = q\<rparr>]"

text \<open>
  \<^verbatim>\<open>ask_question\<close> of \<^verbatim>\<open>main.py\<close>: first the body of its \<^verbatim>\<open>try\<close>, in which an exception
  ends the body where it is raised, then the handler with the check of the API key in
  front and the \<^verbatim>\<open>except\<close> clause behind. The result \<^verbatim>\<open>{"response": text}\<close> is its text.
\<close>

definition main_ask_try ::
  "('v \<Rightarrow> 'v \<Rightarrow> 'd::linorder) \<Rightarrow> 'v client \<Rightarrow> AskModel \<Rightarrow> 'v world
     \<Rightarrow> (exn + string) \<times> 'v world" where
  "main_ask_try l2_distance cl request w =
     (case main_get_similar_chunks l2_distance cl (document_id request) (question request) w of
        (Inl e, w1) \<Rightarrow> (Inl e, w1)
      | (Inr similar_chunks, w1) \<Rightarrow>
          let context = join '' '' (map chunk_text similar_chunks);
              w2 = emit (LoggingInfo (''Context: '' @ context)) w1;
              system_message = system_prefix @ context;
              messages = draft_messages system_message (question request);
              w3 = emit (ChatCompletionsCreate primary_model messages) w2
          in (case chat_completions_create cl primary_model messages of
                Inl e \<Rightarrow> (Inl e, w3)
              | Inr choices \<Rightarrow>
                  (case choices of
                     [] \<Rightarrow> (Inl IndexError, w3)
                   | c # _ \<Rightarrow> (Inr c, w3))))"

definition main_ask_question ::
  "('v \<Rightarrow> 'v \<Rightarrow> 'd::linorder) \<Rightarrow> 'v client \<Rightarrow> AskModel \<Rightarrow> 'v world
     \<Rightarrow> (exn + string) \<times> 'v world" where
  "main_ask_question l2_distance cl request w =
     (if environ w ''NEBIUS_API_KEY'' = None
      then (Inl (HTTPException 500 (Text ''NEBIUS API key not set'')), w)
      else (case main_ask_try l2_distance cl request w of
              (Inl e, w') \<Rightarrow> (Inl (HTTPException 500 (Str e)), w')
            | (Inr r, w') \<Rightarrow> (Inr r, w')))"

text \<open>
  \<^verbatim>\<open>ask_question\<close> of \<^verbatim>\<open>main_ensemble.py\<close>. Both drafting calls are made before the
  f-string of the fusion prompt reads \<^verbatim>\<open>choices[0]\<close> of either answer.
\<close>

definition final_system_message :: "string \<Rightarrow> string \<Rightarrow> string \<Rightarrow> string \<Rightarrow> string" where
  "final_system_message context second_context primary_answer secondary_answer =
     ''You are a helpful assistant. Based on this first context: '' @ context
     @ '' and this second context: '' @ second_context @ '', ''
     @ ''here is the first possible response: '' @ primary_answer @ '' ''
     @ ''and here is the second possible response: '' @ secondary_answer @ ''. ''
     @ ''Based on that, craft a final response to the user question.''"

definition ensemble_ask_try ::
  "('v \<Rightarrow> 'v \<Rightarrow> 'd::linorder) \<Rightarrow> 'v client \<Rightarrow> AskModel \<Rightarrow> 'v world
     \<Rightarrow> (exn + string) \<times> 'v world" where
  "ensemble_ask_try l2_distance cl request w =
     (case ensemble_get_similar_chunks l2_distance cl
             (document_id request) (question request) 5 w of
        (Inl e, w1) \<Rightarrow> (Inl e, w1)
      | (Inr similar_chunks, w1) \<Rightarrow>
     (case ensemble_get_similar_chunks l2_distance cl
             (document_id request) (question request) 10 w1 of
        (Inl e, w2) \<Rightarrow> (Inl e, w2)
      | (Inr second_similar_chunks, w2) \<Rightarrow>
          let context = join '' '' (map chunk_text similar_chunks);
              second_context = join '' '' (map chunk_text second_similar_chunks);
              w3 = emit (LoggingInfo (''Primary Context: '' @ context)) w2;
              w4 = emit (LoggingInfo (''Secondary Context: '' @ second_context)) w3;
              system_message = system_prefix @ context;
              second_system_message = system_prefix @ second_context;
              messages = draft_messages system_message (question request);
              second_messages = draft_messages second_system_message (question request);
              w5 = emit (ChatCompletionsCreate primary_model messages) w4
          in
     (case chat_completions_create cl primary_model messages of
        Inl e \<Rightarrow> (Inl e, w5)
      | Inr primary_choices \<Rightarrow>
          let w6 = emit (ChatCompletionsCreate secondary_model second_messages) w5 in
     (case chat_completions_create cl secondary_model second_messages of
        Inl e \<Rightarrow> (Inl e, w6)
      | Inr secondary_choices \<Rightarrow>
     (case primary_choices of
        [] \<Rightarrow> (Inl IndexError, w6)
      | primary_answer # _ \<Rightarrow>
     (case secondary_choices of
        [] \<Rightarrow> (Inl IndexError, w6)
      | secondary_answer # _ \<Rightarrow>
          let final_messages =
                draft_messages
                  (final_system_message context second_context primary_answer secondary_answer)
                  (question request);
              w7 = emit (ChatCompletionsCreate fusion_model final_messages) w6
          in
     (case chat_completions_create cl fusion_model final_messages of
        Inl e \<Rightarrow> (Inl e, w7)
      | Inr final_choices \<Rightarrow>
          (case final_choices of
             [] \<Rightarrow> (Inl IndexError, w7)
           | c # _ \<Rightarrow> (Inr c, w7)))))))))"

definition ensemble_ask_question ::
  "('v \<Rightarrow> 'v \<Rightarrow> 'd::linorder) \<Rightarrow> 'v client \<Rightarrow> AskModel \<Rightarrow> 'v world
     \<Rightarrow> (exn + string) \<times> 'v world" where
  "ensemble_ask_question l2_distance cl request w =
     (if environ w ''NEBIUS_API_KEY'' = None
      then (Inl (HTTPException 500 (Text ''NEBIUS API key not set'')), w)
      else (case ensemble_ask_try l2_distance cl request w of
              (Inl e, w') \<Rightarrow> (Inl (HTTPException 500 (Str e)), emit (LoggingError e) w')
            | (Inr r, w') \<Rightarrow> (Inr r, w')))"

section \<open>Observing a request\<close>

text \<open>The events a handler added to the trace, and the kinds of event the claims count.\<close>

definition new_events :: "'v world \<Rightarrow> 'v world \<Rightarrow> 'v event list" where
  "new_events w w' = drop (length (trace w)) (trace w')"

fun is_chat_call :: "'v event \<Rightarrow> bool" where
  "is_chat_call (ChatCompletionsCreate m msgs) = True"
| "is_chat_call _ = False"

fun is_call_to :: "string \<Rightarrow> 'v event \<Rightarrow> bool" where
  "is_call_to m (ChatCompletionsCreate m' msgs) = (m' = m)"
| "is_call_to m _ = False"

fun is_retrieval_step :: "'v event \<Rightarrow> bool" where
  "is_retrieval_step (EmbeddingsCreate m q) = True"
| "is_retrieval_step (Select fid qv n) = True"
| "is_retrieval_step _ = False"

section \<open>Fixtures\<close>

text \<open>
  One-dimensional integer vectors with the distance \<open>\<bar>a - b\<bar>\<close>, the three fragments of
  the specification's scenario at distances 1, 3 and 9 from the query vector 0, and a
  fragment of another document.
\<close>

definition dist1 :: "int \<Rightarrow> int \<Rightarrow> int" where
  "dist1 a b = \<bar>a - b\<bar>"

definition F1 :: "int FileChunk" where
  "F1 = \<lparr>chunk_id = 1, chunk_file_id = 1, chunk_text = ''cats are mammals'',
          embedding_vector = 1\<rparr>"

definition F2 :: "int FileChunk" where
  "F2 = \<lparr>chunk_id = 2, chunk_file_id = 1, chunk_text = ''dogs are loyal'',
          embedding_vector = 3\<rparr>"

definition F3 :: "int FileChunk" where
  "F3 = \<lparr>chunk_id = 3, chunk_file_id = 1, chunk_text = ''fish swim'',
          embedding_vector = 9\<rparr>"

definition G1 :: "int FileChunk" where
  "G1 = \<lparr>chunk_id = 4, chunk_file_id = 2, chunk_text = ''birds fly'',
          embedding_vector = 0\<rparr>"

text \<open>A fragment of document 1 as far from the query vector 0 as \<open>F1\<close>, on the other side.\<close>

definition F1' :: "int FileChunk" where
  "F1' = \<lparr>chunk_id = 5, chunk_file_id = 1, chunk_text = ''cats purr'',
           embedding_vector = - 1\<rparr>"

definition world_of :: "(string \<rightharpoonup> string) \<Rightarrow> int FileChunk list \<Rightarrow> int world" where
  "world_of env rows =
     \<lparr>environ = env,
      files = [\<lparr>file_id = 1, file_name = ''pets.txt'', file_content = ''cats dogs fish''\<rparr>,
               \<lparr>file_id = 2, file_name = ''birds.txt'', file_content = ''birds''\<rparr>],
      file_id_seq = 2, file_chunks = rows, dirs = {''sources''}, fs = Map.empty,
      background_tasks = [], trace = []\<rparr>"

definition key_env :: "string \<rightharpoonup> string" where
  "key_env = [''NEBIUS_API_KEY'' \<mapsto> ''secret'']"

definition world1 :: "int world" where
  "world1 = world_of key_env [F3, G1, F1, F2]"

text \<open>The same store in a deployment whose environment has no API key.\<close>

definition nokey_world :: "int world" where
  "nokey_world = world_of Map.empty [F3, G1, F1, F2]"

text \<open>The same two fragments of document 1, both at distance 1, stored in either order.\<close>

definition tie_world_a :: "int world" where
  "tie_world_a = world_of key_env [F1, F1']"

definition tie_world_b :: "int world" where
  "tie_world_b = world_of key_env [F1', F1]"

text \<open>Stub clients: every question embeds to the vector 0; a model answers with its name.\<close>

definition stub_client :: "int client" where
  "stub_client =
     \<lparr>embeddings_create = (\<lambda>m q. Inr [0]),
      chat_completions_create = (\<lambda>m msgs. Inr [''answer of '' @ m])\<rparr>"

definition failing_secondary_client :: "int client" where
  "failing_secondary_client =
     \<lparr>embeddings_create = (\<lambda>m q. Inr [0]),
      chat_completions_create =
        (\<lambda>m msgs. if m = secondary_model then Inl (ClientError ''service unavailable'')
                   else Inr [''answer of '' @ m])\<rparr>"

text \<open>The same failure in the primary drafting call and in the fusion call.\<close>

definition failing_primary_client :: "int client" where
  "failing_primary_client =
     \<lparr>embeddings_create = (\<lambda>m q. Inr [0]),
      chat_completions_create =
        (\<lambda>m msgs. if m = primary_model then Inl (ClientError ''service unavailable'')
                   else Inr [''answer of '' @ m])\<rparr>"

definition failing_fusion_client :: "int client" where
  "failing_fusion_client =
     \<lparr>embeddings_create = (\<lambda>m q. Inr [0]),
      chat_completions_create =
        (\<lambda>m msgs. if m = fusion_model then Inl (ClientError ''service unavailable'')
                   else Inr [''answer of '' @ m])\<rparr>"

text \<open>A request about a document that has no fragments.\<close>

definition empty_request :: AskModel where
  "empty_request = \<lparr>document_id = 7, question = ''what are cats?''\<rparr>"

definition cats_request :: AskModel where
  "cats_request = \<lparr>document_id = 1, question = ''what are cats?''\<rparr>"

section \<open>Properties of the string helpers\<close>

lemma split_chr_not_Nil: "split_chr c s \<noteq> []"
  by (induction s) (auto split: list.splits)

lemma split_chr_no_sep: "c \<notin> set s \<Longrightarrow> split_chr c s = [s]"
  by (induction s) auto

lemma split_chr_append:
  "\<exists>p ps. split_chr c (pre @ c # suf) = (p # ps) @ split_chr c suf"
proof (induction pre)
  case Nil
  have "split_chr c ([] @ c # suf) = ([] # []) @ split_chr c suf" by simp
  then show ?case by blast
next
  case (Cons x pre)
  then obtain p ps where ps: "split_chr c (pre @ c # suf) = (p # ps) @ split_chr c suf"
    by blast
  show ?case
  proof (cases "x = c")
    case True
    then have "split_chr c ((x # pre) @ c # suf) = ([] # p # ps) @ split_chr c suf"
      by (simp add: ps)
    then show ?thesis by blast
  next
    case False
    with ps have "split_chr c ((x # pre) @ c # suf) = ((x # p) # ps) @ split_chr c suf"
      by simp
    then show ?thesis by blast
  qed
qed

lemma last_split_chr_append:
  "last (split_chr c (pre @ c # suf)) = last (split_chr c suf)"
proof -
  obtain p ps where "split_chr c (pre @ c # suf) = (p # ps) @ split_chr c suf"
    using split_chr_append by blast
  then show ?thesis
    by (simp add: split_chr_not_Nil)
qed

text \<open>
  \<^verbatim>\<open>filename.split('.')[-1]\<close> is what follows the last dot; of a name with no dot it is the
  whole name.
\<close>

lemma file_extension_after_last_dot:
  "CHR ''.'' \<notin> set ext \<Longrightarrow> file_extension (pre @ CHR ''.'' # ext) = ext"
  by (simp add: file_extension_def last_split_chr_append split_chr_no_sep)

lemma file_extension_no_dot:
  "CHR ''.'' \<notin> set name \<Longrightarrow> file_extension name = name"
  by (simp add: file_extension_def split_chr_no_sep)

section \<open>Upload\<close>

lemma upload_file_not_allowed:
  "file_extension (filename file) \<notin> set allowed_extensions \<Longrightarrow>
     upload_file parse file w = (Inl (HTTPException 400 (Text ''File type not allowed'')), w)"
  by (simp add: upload_file_def)

text \<open>
  C10. An upload whose file name ends, after its last dot, in anything but \<open>txt\<close> or
  \<open>pdf\<close> is answered with status 400, "File type not allowed", and the state it returns
  is the state it was given: no directory or file is written, no row is added and no
  background task is scheduled.
\<close>

theorem upload_file_rejects_extension:
  assumes "filename file = pre @ CHR ''.'' # ext"
    and "CHR ''.'' \<notin> set ext"
    and "ext \<noteq> ''txt''" and "ext \<noteq> ''pdf''"
  shows "upload_file parse file w
           = (Inl (HTTPException 400 (Text ''File type not allowed'')), w)"
  using assms
  by (simp add: upload_file_def file_extension_after_last_dot allowed_extensions_def)

theorem upload_file_rejects_extension_witness:
  "upload_file (\<lambda>p b. Inr ''text'')
      \<lparr>filename = ''report.v2.exe'', file_bytes = [1, 0, 2]\<rparr> world1
     = (Inl (HTTPException 400 (Text ''File type not allowed'')), world1)"
  using upload_file_rejects_extension
          [of "\<lparr>filename = ''report.v2.exe'', file_bytes = [1, 0, 2]\<rparr>"
              "''report.v2''" "''exe''" "\<lambda>p b. Inr ''text''" world1]
  by simp

section \<open>Retrieval: nearest fragments first\<close>

lemma select_chunks_length:
  "length (select_chunks l2 fid q n rows)
     = min n (length (filter (\<lambda>c. chunk_file_id c = fid) rows))"
  by (simp add: select_chunks_def min.commute)

lemma select_chunks_sorted:
  "sorted (map (\<lambda>c. l2 (embedding_vector c) q) (select_chunks l2 fid q n rows))"
  unfolding select_chunks_def take_map [symmetric]
  by (rule sorted_wrt_take) (rule sorted_sort_key)

lemma select_chunks_split:
  "mset (select_chunks l2 fid q n rows)
     + mset (drop n (sort_key (\<lambda>c. l2 (embedding_vector c) q)
                       (filter (\<lambda>c. chunk_file_id c = fid) rows)))
   = mset (filter (\<lambda>c. chunk_file_id c = fid) rows)"
proof -
  let ?ys = "sort_key (\<lambda>c. l2 (embedding_vector c) q) (filter (\<lambda>c. chunk_file_id c = fid) rows)"
  have "mset (take n ?ys) + mset (drop n ?ys) = mset ?ys"
    by (simp flip: mset_append)
  then show ?thesis by (simp add: select_chunks_def)
qed

lemma select_chunks_subset:
  "mset (select_chunks l2 fid q n rows) \<subseteq># mset (filter (\<lambda>c. chunk_file_id c = fid) rows)"
  using select_chunks_split [of l2 fid q n rows] by (metis mset_subset_eq_add_left)

lemma select_chunks_nearest:
  assumes "r \<in> set (select_chunks l2 fid q n rows)"
    and "c \<in># mset (filter (\<lambda>c. chunk_file_id c = fid) rows)
                - mset (select_chunks l2 fid q n rows)"
  shows "l2 (embedding_vector r) q \<le> l2 (embedding_vector c) q"
proof -
  let ?d = "\<lambda>c. l2 (embedding_vector c) q"
  let ?ys = "sort_key ?d (filter (\<lambda>c. chunk_file_id c = fid) rows)"
  have "mset (filter (\<lambda>c. chunk_file_id c = fid) rows) - mset (select_chunks l2 fid q n rows)
          = mset (drop n ?ys)"
    using select_chunks_split [of l2 fid q n rows] by (metis add_diff_cancel_left')
  with assms(2) have c: "c \<in> set (drop n ?ys)" by simp
  from assms(1) have r: "r \<in> set (take n ?ys)" by (simp add: select_chunks_def)
  have "sorted (map ?d ?ys)"
    by (rule sorted_sort_key)
  then have "sorted (map ?d (take n ?ys) @ map ?d (drop n ?ys))"
    by (simp only: map_append [symmetric] append_take_drop_id)
  then show ?thesis
    using r c by (simp add: sorted_append)
qed

lemma select_chunks_all:
  "length (filter (\<lambda>c. chunk_file_id c = fid) rows) \<le> n \<Longrightarrow>
     select_chunks l2 fid q n rows
       = sort_key (\<lambda>c. l2 (embedding_vector c) q) (filter (\<lambda>c. chunk_file_id c = fid) rows)"
  by (simp add: select_chunks_def)

lemma ensemble_get_similar_chunks_ok:
  "embeddings_create cl embedding_model q = Inr (qv # rest) \<Longrightarrow>
     ensemble_get_similar_chunks l2 cl fid q k w
       = (Inr (select_chunks l2 fid qv k (file_chunks w)),
          emit (Select fid qv k) (emit (EmbeddingsCreate embedding_model q) w))"
  by (simp add: ensemble_get_similar_chunks_def emit_def Let_def)

lemma main_get_similar_chunks_eq:
  "main_get_similar_chunks l2 cl fid q w = ensemble_get_similar_chunks l2 cl fid q 10 w"
  by (simp add: main_get_similar_chunks_def ensemble_get_similar_chunks_def)


text \<open>
  C1 (as amended). When the question embeds to \<open>qv\<close>, retrieval with result count \<open>k\<close>
  returns \<open>min k m\<close> of the \<open>m\<close> fragments stored for the document (exactly \<open>k\<close> when at
  least \<open>k\<close> are stored), in non-decreasing distance to \<open>qv\<close>, and no fragment left out
  is nearer than a fragment returned. \<^verbatim>\<open>main.py\<close> does the same with the fixed count 10.
  Nothing is said about the order of fragments at equal distance.
\<close>

theorem get_similar_chunks_nearest:
  assumes "embeddings_create cl embedding_model q = Inr (qv # rest)"
  shows "\<exists>rs. fst (ensemble_get_similar_chunks l2_distance cl fid q k w) = Inr rs
           \<and> length rs = min k (length (filter (\<lambda>c. chunk_file_id c = fid) (file_chunks w)))
           \<and> sorted (map (\<lambda>c. l2_distance (embedding_vector c) qv) rs)
           \<and> mset rs \<subseteq># mset (filter (\<lambda>c. chunk_file_id c = fid) (file_chunks w))
           \<and> (\<forall>r \<in> set rs.
                \<forall>c \<in># mset (filter (\<lambda>c. chunk_file_id c = fid) (file_chunks w)) - mset rs.
                  l2_distance (embedding_vector r) qv \<le> l2_distance (embedding_vector c) qv)
           \<and> fst (main_get_similar_chunks l2_distance cl fid q w)
               = Inr (select_chunks l2_distance fid qv 10 (file_chunks w))
           \<and> (k = 10 \<longrightarrow> fst (main_get_similar_chunks l2_distance cl fid q w) = Inr rs)"
proof (intro exI conjI ballI)
  let ?rs = "select_chunks l2_distance fid qv k (file_chunks w)"
  show "fst (ensemble_get_similar_chunks l2_distance cl fid q k w) = Inr ?rs"
    by (simp add: ensemble_get_similar_chunks_ok [OF assms])
  show "length ?rs = min k (length (filter (\<lambda>c. chunk_file_id c = fid) (file_chunks w)))"
    by (rule select_chunks_length)
  show "sorted (map (\<lambda>c. l2_distance (embedding_vector c) qv) ?rs)"
    by (rule select_chunks_sorted)
  show "mset ?rs \<subseteq># mset (filter (\<lambda>c. chunk_file_id c = fid) (file_chunks w))"
    by (rule select_chunks_subset)
  show "l2_distance (embedding_vector r) qv \<le> l2_distance (embedding_vector c) qv"
    if "r \<in> set ?rs"
      and "c \<in># mset (filter (\<lambda>c. chunk_file_id c = fid) (file_chunks w)) - mset ?rs" for r c
    using that by (rule select_chunks_nearest)
  show "fst (main_get_similar_chunks l2_distance cl fid q w)
               = Inr (select_chunks l2_distance fid qv 10 (file_chunks w))"
    by (simp add: main_get_similar_chunks_eq ensemble_get_similar_chunks_ok [OF assms])
  then show "k = 10 \<longrightarrow> fst (main_get_similar_chunks l2_distance cl fid q w) = Inr ?rs"
    by simp
qed

theorem get_similar_chunks_nearest_witness:
  "\<exists>rs. fst (ensemble_get_similar_chunks dist1 stub_client 1 ''what are cats?'' 2 world1) = Inr rs
           \<and> length rs = min 2 (length (filter (\<lambda>c. chunk_file_id c = 1) (file_chunks world1)))
           \<and> sorted (map (\<lambda>c. dist1 (embedding_vector c) 0) rs)
           \<and> mset rs \<subseteq># mset (filter (\<lambda>c. chunk_file_id c = 1) (file_chunks world1))
           \<and> (\<forall>r \<in> set rs.
                \<forall>c \<in># mset (filter (\<lambda>c. chunk_file_id c = 1) (file_chunks world1)) - mset rs.
                  dist1 (embedding_vector r) 0 \<le> dist1 (embedding_vector c) 0)
           \<and> fst (main_get_similar_chunks dist1 stub_client 1 ''what are cats?'' world1)
               = Inr (select_chunks dist1 1 0 10 (file_chunks world1))
           \<and> ((2::nat) = 10 \<longrightarrow> fst (main_get_similar_chunks dist1 stub_client 1 ''what are cats?'' world1) = Inr rs)"
  by (rule get_similar_chunks_nearest [of stub_client "''what are cats?''" 0 "[]"])
     (simp add: stub_client_def)

text \<open>
  C1 as stated fails: the query orders by distance alone, so the result is not a
  function of the document's fragments, the query vector and \<open>k\<close>. Two stores holding the
  same two fragments of document 1, both at distance 1 from the query vector, answer the
  same retrieval with \<open>k = 1\<close> by different fragments.
\<close>

theorem get_similar_chunks_tie_counterexample:
  "mset (file_chunks tie_world_a) = mset (file_chunks tie_world_b)
   \<and> dist1 (embedding_vector F1) 0 = dist1 (embedding_vector F1') 0
   \<and> fst (ensemble_get_similar_chunks dist1 stub_client 1 ''what are cats?'' 1 tie_world_a)
       = Inr [F1]
   \<and> fst (ensemble_get_similar_chunks dist1 stub_client 1 ''what are cats?'' 1 tie_world_b)
       = Inr [F1']
   \<and> F1 \<noteq> F1'"
  by (simp add: tie_world_a_def tie_world_b_def world_of_def F1_def F1'_def dist1_def
        stub_client_def ensemble_get_similar_chunks_def select_chunks_def emit_def Let_def)

text \<open>
  C4. When the question embeds and the document has \<open>m < k\<close> fragments, retrieval succeeds
  and returns all \<open>m\<close> of them and nothing else; for a document with no fragments it
  returns the empty list. \<^verbatim>\<open>main.py\<close> does so for \<open>k = 10\<close>.
\<close>

theorem get_similar_chunks_shortfall:
  assumes "embeddings_create cl embedding_model q = Inr (qv # rest)"
    and "length (filter (\<lambda>c. chunk_file_id c = fid) (file_chunks w)) < k"
  shows "\<exists>rs. fst (ensemble_get_similar_chunks l2_distance cl fid q k w) = Inr rs
           \<and> mset rs = mset (filter (\<lambda>c. chunk_file_id c = fid) (file_chunks w))
           \<and> length rs = length (filter (\<lambda>c. chunk_file_id c = fid) (file_chunks w))
           \<and> (filter (\<lambda>c. chunk_file_id c = fid) (file_chunks w) = [] \<longrightarrow> rs = [])
           \<and> (k = 10 \<longrightarrow> fst (main_get_similar_chunks l2_distance cl fid q w) = Inr rs)"
proof -
  let ?stored = "filter (\<lambda>c. chunk_file_id c = fid) (file_chunks w)"
  let ?rs = "sort_key (\<lambda>c. l2_distance (embedding_vector c) qv) ?stored"
  have sel: "select_chunks l2_distance fid qv k (file_chunks w) = ?rs"
    using assms(2) by (simp add: select_chunks_all)
  have "fst (ensemble_get_similar_chunks l2_distance cl fid q k w) = Inr ?rs"
    by (simp add: ensemble_get_similar_chunks_ok [OF assms(1)] sel)
  moreover have "mset ?rs = mset ?stored" "length ?rs = length ?stored"
    by simp_all
  moreover have "?stored = [] \<longrightarrow> ?rs = []"
    by simp
  moreover have "k = 10 \<longrightarrow> fst (main_get_similar_chunks l2_distance cl fid q w) = Inr ?rs"
    using sel by (auto simp: main_get_similar_chunks_eq ensemble_get_similar_chunks_ok [OF assms(1)])
  ultimately show ?thesis by blast
qed

theorem get_similar_chunks_shortfall_witness:
  "\<exists>rs. fst (ensemble_get_similar_chunks dist1 stub_client 1 ''what are cats?'' 10 world1) = Inr rs
           \<and> mset rs = mset (filter (\<lambda>c. chunk_file_id c = 1) (file_chunks world1))
           \<and> length rs = length (filter (\<lambda>c. chunk_file_id c = 1) (file_chunks world1))
           \<and> (filter (\<lambda>c. chunk_file_id c = 1) (file_chunks world1) = [] \<longrightarrow> rs = [])
           \<and> ((10::nat) = 10 \<longrightarrow> fst (main_get_similar_chunks dist1 stub_client 1 ''what are cats?'' world1) = Inr rs)"
  by (rule get_similar_chunks_shortfall [of stub_client "''what are cats?''" 0 "[]"])
     (simp_all add: stub_client_def world1_def world_of_def F1_def F2_def F3_def G1_def)


section \<open>Answering: what a request changes and what it calls\<close>

lemma emit_simps [simp]:
  "trace (emit e w) = trace w @ [e]"
  "environ (emit e w) = environ w"
  "file_chunks (emit e w) = file_chunks w"
  by (simp_all add: emit_def)

lemma emit_trace_update [simp]: "emit e (w\<lparr>trace := t\<rparr>) = w\<lparr>trace := t @ [e]\<rparr>"
  by (simp add: emit_def)

lemma get_frame:
  "snd (ensemble_get_similar_chunks l2 cl fid q k w)
     = w\<lparr>trace := trace (snd (ensemble_get_similar_chunks l2 cl fid q k w))\<rparr>"
  by (simp add: ensemble_get_similar_chunks_def emit_def Let_def split: sum.splits list.splits)

lemma get_fst_trace:
  "fst (ensemble_get_similar_chunks l2 cl fid q k (w\<lparr>trace := t\<rparr>))
     = fst (ensemble_get_similar_chunks l2 cl fid q k w)"
  by (simp add: ensemble_get_similar_chunks_def emit_def Let_def split: sum.splits list.splits)

lemma main_ask_try_frame:
  "snd (main_ask_try l2 cl request w) = w\<lparr>trace := trace (snd (main_ask_try l2 cl request w))\<rparr>"
  by (simp add: main_ask_try_def main_get_similar_chunks_def emit_def Let_def
           split: sum.splits list.splits prod.splits)

lemma main_ask_try_fst_trace:
  "fst (main_ask_try l2 cl request (w\<lparr>trace := t\<rparr>)) = fst (main_ask_try l2 cl request w)"
  by (simp add: main_ask_try_def main_get_similar_chunks_def emit_def Let_def
           split: sum.splits list.splits prod.splits)

lemma ensemble_ask_try_frame:
  "snd (ensemble_ask_try l2 cl request w) = w\<lparr>trace := trace (snd (ensemble_ask_try l2 cl request w))\<rparr>"
  by (simp add: ensemble_ask_try_def ensemble_get_similar_chunks_def emit_def Let_def
           split: sum.splits list.splits prod.splits)

lemma ensemble_ask_try_fst_trace:
  "fst (ensemble_ask_try l2 cl request (w\<lparr>trace := t\<rparr>)) = fst (ensemble_ask_try l2 cl request w)"
  by (simp add: ensemble_ask_try_def ensemble_get_similar_chunks_def emit_def Let_def
           split: sum.splits list.splits prod.splits)


lemma main_ask_question_frame:
  "snd (main_ask_question l2 cl request w)
     = w\<lparr>trace := trace (snd (main_ask_question l2 cl request w))\<rparr>"
proof (cases "main_ask_try l2 cl request w")
  case (Pair r w')
  with main_ask_try_frame [of l2 cl request w] show ?thesis
    by (cases r) (simp_all add: main_ask_question_def)
qed

lemma main_ask_question_fst_trace:
  "fst (main_ask_question l2 cl request (w\<lparr>trace := t\<rparr>))
     = fst (main_ask_question l2 cl request w)"
proof -
  obtain r w' where a: "main_ask_try l2 cl request w = (r, w')"
    by (cases "main_ask_try l2 cl request w")
  obtain r' w'' where b: "main_ask_try l2 cl request (w\<lparr>trace := t\<rparr>) = (r', w'')"
    by (cases "main_ask_try l2 cl request (w\<lparr>trace := t\<rparr>)")
  from a b main_ask_try_fst_trace [where w = w and t = t and ?l2.0 = l2 and cl = cl and request = request] have "r' = r" by simp
  with a b show ?thesis
    by (cases r) (simp_all add: main_ask_question_def)
qed

lemma ensemble_ask_question_frame:
  "snd (ensemble_ask_question l2 cl request w)
     = w\<lparr>trace := trace (snd (ensemble_ask_question l2 cl request w))\<rparr>"
proof (cases "ensemble_ask_try l2 cl request w")
  case (Pair r w')
  with ensemble_ask_try_frame [of l2 cl request w]
  have eq: "w' = w\<lparr>trace := trace w'\<rparr>" by simp
  have "w'\<lparr>trace := t\<rparr> = w\<lparr>trace := t\<rparr>" for t
  proof -
    have "w'\<lparr>trace := t\<rparr> = (w\<lparr>trace := trace w'\<rparr>)\<lparr>trace := t\<rparr>"
      using eq by (rule arg_cong)
    then show ?thesis by simp
  qed
  with Pair eq show ?thesis
    by (cases r) (simp_all add: ensemble_ask_question_def emit_def)
qed

lemma ensemble_ask_question_fst_trace:
  "fst (ensemble_ask_question l2 cl request (w\<lparr>trace := t\<rparr>))
     = fst (ensemble_ask_question l2 cl request w)"
proof -
  obtain r w' where a: "ensemble_ask_try l2 cl request w = (r, w')"
    by (cases "ensemble_ask_try l2 cl request w")
  obtain r' w'' where b: "ensemble_ask_try l2 cl request (w\<lparr>trace := t\<rparr>) = (r', w'')"
    by (cases "ensemble_ask_try l2 cl request (w\<lparr>trace := t\<rparr>)")
  from a b ensemble_ask_try_fst_trace [where w = w and t = t and ?l2.0 = l2 and cl = cl and request = request] have "r' = r" by simp
  with a b show ?thesis
    by (cases r) (simp_all add: ensemble_ask_question_def)
qed

text \<open>
  C9. Asking the same question again in the state the first call left behind gives the
  same result, in both services: a call changes nothing but the trace of its own calls
  and log lines, and the trace has no influence on the result.
\<close>

theorem ask_question_idempotent:
  "fst (main_ask_question l2 cl request (snd (main_ask_question l2 cl request w)))
     = fst (main_ask_question l2 cl request w)
   \<and> fst (ensemble_ask_question l2 cl request (snd (ensemble_ask_question l2 cl request w)))
     = fst (ensemble_ask_question l2 cl request w)
   \<and> snd (main_ask_question l2 cl request w)
     = w\<lparr>trace := trace (snd (main_ask_question l2 cl request w))\<rparr>
   \<and> snd (ensemble_ask_question l2 cl request w)
     = w\<lparr>trace := trace (snd (ensemble_ask_question l2 cl request w))\<rparr>"
proof (intro conjI)
  show "fst (main_ask_question l2 cl request (snd (main_ask_question l2 cl request w)))
     = fst (main_ask_question l2 cl request w)"
    by (subst main_ask_question_frame) (rule main_ask_question_fst_trace)
  show "fst (ensemble_ask_question l2 cl request (snd (ensemble_ask_question l2 cl request w)))
     = fst (ensemble_ask_question l2 cl request w)"
    by (subst ensemble_ask_question_frame) (rule ensemble_ask_question_fst_trace)
  show "snd (main_ask_question l2 cl request w)
     = w\<lparr>trace := trace (snd (main_ask_question l2 cl request w))\<rparr>"
    by (rule main_ask_question_frame)
  show "snd (ensemble_ask_question l2 cl request w)
     = w\<lparr>trace := trace (snd (ensemble_ask_question l2 cl request w))\<rparr>"
    by (rule ensemble_ask_question_frame)
qed

text \<open>
  C8 (as amended). The API key is checked by every request: a call of \<^verbatim>\<open>ask_question\<close>
  fails with status 500, "NEBIUS API key not set", exactly when the environment has no
  \<^verbatim>\<open>NEBIUS_API_KEY\<close> at the time of that call, and then before any gateway or store call,
  leaving the state as it was.
\<close>

theorem ask_question_key_check:
  "(fst (main_ask_question l2 cl request w) = Inl (HTTPException 500 (Text ''NEBIUS API key not set'')))
      = (environ w ''NEBIUS_API_KEY'' = None)
   \<and> (fst (ensemble_ask_question l2 cl request w) = Inl (HTTPException 500 (Text ''NEBIUS API key not set'')))
      = (environ w ''NEBIUS_API_KEY'' = None)
   \<and> (environ w ''NEBIUS_API_KEY'' = None \<longrightarrow>
        snd (main_ask_question l2 cl request w) = w
        \<and> snd (ensemble_ask_question l2 cl request w) = w)"
  by (auto simp: main_ask_question_def ensemble_ask_question_def split: prod.splits sum.splits)

theorem ask_question_key_check_witness:
  "fst (main_ask_question dist1 stub_client cats_request nokey_world)
      = Inl (HTTPException 500 (Text ''NEBIUS API key not set''))
   \<and> fst (ensemble_ask_question dist1 stub_client cats_request nokey_world)
      = Inl (HTTPException 500 (Text ''NEBIUS API key not set''))
   \<and> snd (main_ask_question dist1 stub_client cats_request nokey_world) = nokey_world
   \<and> snd (ensemble_ask_question dist1 stub_client cats_request nokey_world) = nokey_world"
  using ask_question_key_check [of dist1 stub_client cats_request nokey_world]
  by (simp add: nokey_world_def world_of_def)

text \<open>
  C8 as stated fails: without the key the handler is invoked and fails, and fails again on
  the next call; the moment the environment has the key, the same request is answered.
  The check is made per request, not once.
\<close>

theorem ask_question_key_counterexample:
  "fst (main_ask_question dist1 stub_client cats_request nokey_world)
      = Inl (HTTPException 500 (Text ''NEBIUS API key not set''))
   \<and> fst (main_ask_question dist1 stub_client cats_request
            (snd (main_ask_question dist1 stub_client cats_request nokey_world)))
      = Inl (HTTPException 500 (Text ''NEBIUS API key not set''))
   \<and> fst (main_ask_question dist1 stub_client cats_request (nokey_world\<lparr>environ := key_env\<rparr>))
      = Inr (''answer of '' @ primary_model)
   \<and> fst (ensemble_ask_question dist1 stub_client cats_request nokey_world)
      = Inl (HTTPException 500 (Text ''NEBIUS API key not set''))
   \<and> fst (ensemble_ask_question dist1 stub_client cats_request
            (snd (ensemble_ask_question dist1 stub_client cats_request nokey_world)))
      = Inl (HTTPException 500 (Text ''NEBIUS API key not set''))
   \<and> fst (ensemble_ask_question dist1 stub_client cats_request (nokey_world\<lparr>environ := key_env\<rparr>))
      = Inr (''answer of '' @ fusion_model)"
  by (simp add: main_ask_question_def main_ask_try_def main_get_similar_chunks_def
        ensemble_ask_question_def ensemble_ask_try_def ensemble_get_similar_chunks_def
        nokey_world_def world_of_def key_env_def stub_client_def emit_def Let_def)


lemma new_events_append [simp]: "drop (length t) (t @ es) = es"
  by simp

lemma main_get_similar_chunks_ok:
  "embeddings_create cl embedding_model q = Inr (qv # rest) \<Longrightarrow>
     main_get_similar_chunks l2 cl fid q w
       = (Inr (select_chunks l2 fid qv 10 (file_chunks w)),
          emit (Select fid qv 10) (emit (EmbeddingsCreate embedding_model q) w))"
  by (simp add: main_get_similar_chunks_def emit_def Let_def)

lemma model_names_distinct:
  "primary_model \<noteq> fusion_model" "secondary_model \<noteq> fusion_model"
  "primary_model \<noteq> secondary_model"
  by (simp_all add: primary_model_def secondary_model_def fusion_model_def)

text \<open>
  C2 (as amended). In the ensemble service, when the primary drafting call returns and the
  secondary drafting call raises \<open>e\<close>, the request fails with status 500 and detail
  \<^verbatim>\<open>str(e)\<close>, no answer is returned, and the fusion model is never called: the only
  completion calls are the two drafting calls.
\<close>

theorem ensemble_secondary_failure_aborts:
  assumes key: "environ w ''NEBIUS_API_KEY'' = Some api_key"
    and emb: "embeddings_create cl embedding_model (question request) = Inr (qv # rest)"
    and ctxA: "context = join '' '' (map chunk_text
                 (select_chunks l2_distance (document_id request) qv 5 (file_chunks w)))"
    and ctxB: "second_context = join '' '' (map chunk_text
                 (select_chunks l2_distance (document_id request) qv 10 (file_chunks w)))"
    and prim: "chat_completions_create cl primary_model
                 (draft_messages (system_prefix @ context) (question request))
                 = Inr primary_choices"
    and sec: "chat_completions_create cl secondary_model
                 (draft_messages (system_prefix @ second_context) (question request))
                 = Inl e"
  shows "fst (ensemble_ask_question l2_distance cl request w) = Inl (HTTPException 500 (Str e))
         \<and> filter (is_call_to fusion_model)
              (new_events w (snd (ensemble_ask_question l2_distance cl request w))) = []
         \<and> filter is_chat_call
              (new_events w (snd (ensemble_ask_question l2_distance cl request w)))
             = [ChatCompletionsCreate primary_model
                  (draft_messages (system_prefix @ context) (question request)),
                ChatCompletionsCreate secondary_model
                  (draft_messages (system_prefix @ second_context) (question request))]"
proof -
  have body:
    "ensemble_ask_try l2_distance cl request w
       = (Inl e, w\<lparr>trace := trace w @
            [EmbeddingsCreate embedding_model (question request),
             Select (document_id request) qv 5,
             EmbeddingsCreate embedding_model (question request),
             Select (document_id request) qv 10,
             LoggingInfo (''Primary Context: '' @ context),
             LoggingInfo (''Secondary Context: '' @ second_context),
             ChatCompletionsCreate primary_model
               (draft_messages (system_prefix @ context) (question request)),
             ChatCompletionsCreate secondary_model
               (draft_messages (system_prefix @ second_context) (question request))]\<rparr>)"
    using prim sec unfolding ctxA ctxB
    by (simp add: ensemble_ask_try_def ensemble_get_similar_chunks_ok [OF emb] Let_def emit_def)
  show ?thesis
    using key
    by (simp add: ensemble_ask_question_def body new_events_def emit_def model_names_distinct)
qed

theorem ensemble_secondary_failure_aborts_witness:
  "fst (ensemble_ask_question dist1 failing_secondary_client cats_request world1)
     = Inl (HTTPException 500 (Str (ClientError ''service unavailable'')))
   \<and> filter (is_call_to fusion_model)
        (new_events world1
           (snd (ensemble_ask_question dist1 failing_secondary_client cats_request world1))) = []"
proof -
  have key: "environ world1 ''NEBIUS_API_KEY'' = Some ''secret''"
    by (simp add: world1_def world_of_def key_env_def)
  have emb: "embeddings_create failing_secondary_client embedding_model (question cats_request)
               = Inr (0 # [])"
    by (simp add: failing_secondary_client_def)
  have prim: "chat_completions_create failing_secondary_client primary_model msgs
               = Inr [''answer of '' @ primary_model]" for msgs
    by (simp add: failing_secondary_client_def model_names_distinct)
  have sec: "chat_completions_create failing_secondary_client secondary_model msgs
               = Inl (ClientError ''service unavailable'')" for msgs
    by (simp add: failing_secondary_client_def)
  from ensemble_secondary_failure_aborts [OF key emb refl refl prim sec, of dist1]
  show ?thesis by blast
qed

text \<open>
  C2 as stated fails in its error: the request does not fail with an error of its own kind
  that says which stage or model failed. The handler has one \<^verbatim>\<open>except Exception\<close> clause,
  and the same failure in the secondary call, in the primary call and in the fusion call
  gives one and the same status 500 with the same detail.
\<close>

theorem ensemble_failure_unnamed_counterexample:
  "fst (ensemble_ask_question dist1 failing_secondary_client cats_request world1)
     = Inl (HTTPException 500 (Str (ClientError ''service unavailable'')))
   \<and> fst (ensemble_ask_question dist1 failing_primary_client cats_request world1)
     = Inl (HTTPException 500 (Str (ClientError ''service unavailable'')))
   \<and> fst (ensemble_ask_question dist1 failing_fusion_client cats_request world1)
     = Inl (HTTPException 500 (Str (ClientError ''service unavailable'')))"
  by (simp add: ensemble_ask_question_def ensemble_ask_try_def ensemble_get_similar_chunks_def
        failing_secondary_client_def failing_primary_client_def failing_fusion_client_def
        world1_def world_of_def key_env_def emit_def Let_def model_names_distinct
        model_names_distinct [symmetric])

section \<open>The fusion prompt\<close>









section \<open>Single-model synthesis, context assembly and retrieval passes\<close>

lemma join_space_Cons:
  "join sep (x # xs) = x @ concat (map (\<lambda>y. sep @ y) xs)"
  by (induction xs arbitrary: x) simp_all

lemma main_ask_try_retrieved:
  assumes emb: "embeddings_create cl embedding_model (question request) = Inr (qv # rest)"
    and ctx: "context = join '' '' (map chunk_text
                 (select_chunks l2_distance (document_id request) qv 10 (file_chunks w)))"
  shows "main_ask_try l2_distance cl request w
         = ((case chat_completions_create cl primary_model
                    (draft_messages (system_prefix @ context) (question request)) of
               Inl e \<Rightarrow> Inl e
             | Inr [] \<Rightarrow> Inl IndexError
             | Inr (c # cs) \<Rightarrow> Inr c),
            w\<lparr>trace := trace w @
              [EmbeddingsCreate embedding_model (question request),
               Select (document_id request) qv 10,
               LoggingInfo (''Context: '' @ context),
               ChatCompletionsCreate primary_model
                 (draft_messages (system_prefix @ context) (question request))]\<rparr>)"
  unfolding ctx
  by (simp add: main_ask_try_def main_get_similar_chunks_ok [OF emb] Let_def emit_def
        split: sum.split list.split)

lemma main_synthesis_call_aux:
  assumes key: "environ w ''NEBIUS_API_KEY'' = Some api_key"
    and emb: "embeddings_create cl embedding_model (question request) = Inr (qv # rest)"
    and ctx: "context = join '' '' (map chunk_text
                 (select_chunks l2_distance (document_id request) qv 10 (file_chunks w)))"
    and chat: "chat_completions_create cl primary_model
                 [\<lparr>role = ''system'',
                   content = ''You are a helpful assistant. Here is the context to use to reply to the user question: '' @ context\<rparr>,
                  \<lparr>role = ''user'', content = question request\<rparr>]
               = Inr (answer # others)"
  shows "filter is_chat_call (new_events w (snd (main_ask_question l2_distance cl request w)))
           = [ChatCompletionsCreate primary_model
                [\<lparr>role = ''system'',
                  content = ''You are a helpful assistant. Here is the context to use to reply to the user question: '' @ context\<rparr>,
                 \<lparr>role = ''user'', content = question request\<rparr>]]
         \<and> fst (main_ask_question l2_distance cl request w) = Inr answer"
proof -
  have msgs: "draft_messages (system_prefix @ context) (question request)
          = [\<lparr>role = ''system'',
               content = ''You are a helpful assistant. Here is the context to use to reply to the user question: '' @ context\<rparr>,
             \<lparr>role = ''user'', content = question request\<rparr>]"
    by (simp add: draft_messages_def system_prefix_def)
  show ?thesis
    using key chat
    by (simp add: main_ask_question_def main_ask_try_retrieved [OF emb ctx] msgs new_events_def)
qed

text \<open>
  C6. In the single-model service, a request whose retrieval gave the context \<open>context\<close>
  makes exactly one completion call, with exactly two messages: a system message that is
  the fixed sentence followed by the context, and a user message that is the question as
  received. The text of the first choice is returned unchanged.
\<close>

theorem main_synthesis_call:
  assumes key: "environ w ''NEBIUS_API_KEY'' = Some api_key"
    and emb: "embeddings_create cl embedding_model (question request) = Inr (qv # rest)"
    and ctx: "context = join '' '' (map chunk_text
                 (select_chunks l2_distance (document_id request) qv 10 (file_chunks w)))"
    and chat: "chat_completions_create cl primary_model
                 [\<lparr>role = ''system'',
                   content = ''You are a helpful assistant. Here is the context to use to reply to the user question: '' @ context\<rparr>,
                  \<lparr>role = ''user'', content = question request\<rparr>]
               = Inr (answer # others)"
  shows "filter is_chat_call (new_events w (snd (main_ask_question l2_distance cl request w)))
           = [ChatCompletionsCreate primary_model
                [\<lparr>role = ''system'',
                  content = ''You are a helpful assistant. Here is the context to use to reply to the user question: '' @ context\<rparr>,
                 \<lparr>role = ''user'', content = question request\<rparr>]]
         \<and> fst (main_ask_question l2_distance cl request w) = Inr answer"
  using key emb ctx chat by (rule main_synthesis_call_aux)

theorem main_synthesis_call_witness:
  "filter is_chat_call
     (new_events world1 (snd (main_ask_question dist1 stub_client cats_request world1)))
     = [ChatCompletionsCreate primary_model
          [\<lparr>role = ''system'',
            content = ''You are a helpful assistant. Here is the context to use to reply to the user question: '' @ ''cats are mammals dogs are loyal fish swim''\<rparr>,
           \<lparr>role = ''user'', content = ''what are cats?''\<rparr>]]
   \<and> fst (main_ask_question dist1 stub_client cats_request world1)
       = Inr (''answer of '' @ primary_model)"
proof -
  have key: "environ world1 ''NEBIUS_API_KEY'' = Some ''secret''"
    by (simp add: world1_def world_of_def key_env_def)
  have emb: "embeddings_create stub_client embedding_model (question cats_request)
               = Inr (0 # [])"
    by (simp add: stub_client_def)
  have chat: "chat_completions_create stub_client m msgs = Inr ((''answer of '' @ m) # [])"
    for m msgs
    by (simp add: stub_client_def)
  have ctx: "''cats are mammals dogs are loyal fish swim''
               = join '' '' (map chunk_text
                   (select_chunks dist1 (document_id cats_request) 0 10 (file_chunks world1)))"
    by (simp add: select_chunks_def world1_def world_of_def cats_request_def dist1_def
          F1_def F2_def F3_def G1_def)
  from main_synthesis_call [OF key emb ctx chat]
  show ?thesis by (simp add: cats_request_def)
qed

lemma ensemble_ask_try_calls:
  assumes emb: "embeddings_create cl embedding_model (question request) = Inr (qv # rest)"
    and ctxA: "contextA = join '' '' (map chunk_text
                 (select_chunks l2_distance (document_id request) qv 5 (file_chunks w)))"
    and ctxB: "contextB = join '' '' (map chunk_text
                 (select_chunks l2_distance (document_id request) qv 10 (file_chunks w)))"
  shows "\<exists>later. trace (snd (ensemble_ask_try l2_distance cl request w))
           = trace w @
              [EmbeddingsCreate embedding_model (question request),
               Select (document_id request) qv 5,
               EmbeddingsCreate embedding_model (question request),
               Select (document_id request) qv 10,
               LoggingInfo (''Primary Context: '' @ contextA),
               LoggingInfo (''Secondary Context: '' @ contextB),
               ChatCompletionsCreate primary_model
                 (draft_messages (system_prefix @ contextA) (question request))]
              @ (case chat_completions_create cl primary_model
                        (draft_messages (system_prefix @ contextA) (question request)) of
                   Inl e \<Rightarrow> []
                 | Inr choices \<Rightarrow>
                     ChatCompletionsCreate secondary_model
                       (draft_messages (system_prefix @ contextB) (question request)) # later)"
proof (cases "chat_completions_create cl primary_model
                (draft_messages (system_prefix @ contextA) (question request))")
  case (Inl e)
  then show ?thesis
    unfolding ctxA ctxB
    by (simp add: ensemble_ask_try_def ensemble_get_similar_chunks_ok [OF emb] Let_def emit_def)
next
  case (Inr choices)
  then show ?thesis
    unfolding ctxA ctxB
    by (simp add: ensemble_ask_try_def ensemble_get_similar_chunks_ok [OF emb] Let_def emit_def
          split: sum.split list.split)
qed

text \<open>
  C5. The context is the texts of the fragments in the order given, with one space
  between neighbours; of no fragments it is the empty string. Both services assemble it
  from what retrieval returned: the single-model service sends the fixed sentence followed
  by the context of its 10 fragments, the ensemble service that of its 5 fragments to the
  primary model and that of its 10 fragments to the secondary model. A request against a
  document with no fragments still makes its completion call, with the bare fixed sentence
  as system message, and returns the answer.
\<close>

theorem context_assembly:
  assumes key: "environ w ''NEBIUS_API_KEY'' = Some api_key"
    and emb: "embeddings_create cl embedding_model (question request) = Inr (qv # rest)"
    and fr5: "fragments5
                = select_chunks l2_distance (document_id request) qv 5 (file_chunks w)"
    and fr10: "fragments10
                = select_chunks l2_distance (document_id request) qv 10 (file_chunks w)"
  shows "join '' '' (map chunk_text ([] :: 'v FileChunk list)) = []
    \<and> (\<forall>(c :: 'v FileChunk) cs.
          join '' '' (map chunk_text (c # cs))
            = chunk_text c @ concat (map (\<lambda>d. '' '' @ chunk_text d) cs))
    \<and> filter is_chat_call
         (new_events w (snd (main_ask_question l2_distance cl request (w :: 'v world))))
        = [ChatCompletionsCreate primary_model
             [\<lparr>role = ''system'',
               content = ''You are a helpful assistant. Here is the context to use to reply to the user question: '' @ join '' '' (map chunk_text fragments10)\<rparr>,
              \<lparr>role = ''user'', content = question request\<rparr>]]
    \<and> (\<forall>answer others.
          chat_completions_create cl primary_model
            [\<lparr>role = ''system'',
              content = ''You are a helpful assistant. Here is the context to use to reply to the user question: '' @ join '' '' (map chunk_text fragments10)\<rparr>,
             \<lparr>role = ''user'', content = question request\<rparr>]
            = Inr (answer # others)
          \<longrightarrow> fst (main_ask_question l2_distance cl request w) = Inr answer)
    \<and> take 1 (filter is_chat_call
         (new_events w (snd (ensemble_ask_question l2_distance cl request w))))
        = [ChatCompletionsCreate primary_model
             [\<lparr>role = ''system'',
               content = ''You are a helpful assistant. Here is the context to use to reply to the user question: '' @ join '' '' (map chunk_text fragments5)\<rparr>,
              \<lparr>role = ''user'', content = question request\<rparr>]]
    \<and> (\<forall>choices.
          chat_completions_create cl primary_model
            [\<lparr>role = ''system'',
              content = ''You are a helpful assistant. Here is the context to use to reply to the user question: '' @ join '' '' (map chunk_text fragments5)\<rparr>,
             \<lparr>role = ''user'', content = question request\<rparr>]
            = Inr choices
          \<longrightarrow> take 2 (filter is_chat_call
                 (new_events w (snd (ensemble_ask_question l2_distance cl request w))))
               = [ChatCompletionsCreate primary_model
                    [\<lparr>role = ''system'',
                      content = ''You are a helpful assistant. Here is the context to use to reply to the user question: '' @ join '' '' (map chunk_text fragments5)\<rparr>,
                     \<lparr>role = ''user'', content = question request\<rparr>],
                  ChatCompletionsCreate secondary_model
                    [\<lparr>role = ''system'',
                      content = ''You are a helpful assistant. Here is the context to use to reply to the user question: '' @ join '' '' (map chunk_text fragments10)\<rparr>,
                     \<lparr>role = ''user'', content = question request\<rparr>]])
    \<and> (filter (\<lambda>c. chunk_file_id c = document_id request) (file_chunks w) = [] \<longrightarrow>
          filter is_chat_call
            (new_events w (snd (main_ask_question l2_distance cl request w)))
           = [ChatCompletionsCreate primary_model
                [\<lparr>role = ''system'',
                  content = ''You are a helpful assistant. Here is the context to use to reply to the user question: ''\<rparr>,
                 \<lparr>role = ''user'', content = question request\<rparr>]]
          \<and> (\<forall>answer others.
                chat_completions_create cl primary_model
                  [\<lparr>role = ''system'',
                    content = ''You are a helpful assistant. Here is the context to use to reply to the user question: ''\<rparr>,
                   \<lparr>role = ''user'', content = question request\<rparr>]
                  = Inr (answer # others)
                \<longrightarrow> fst (main_ask_question l2_distance cl request w) = Inr answer))"
proof -
  let ?pfx = "''You are a helpful assistant. Here is the context to use to reply to the user question: ''"
  let ?ctxA = "join '' '' (map chunk_text fragments5)"
  let ?ctxB = "join '' '' (map chunk_text fragments10)"
  let ?msgs = "\<lambda>s. [\<lparr>role = ''system'', content = ?pfx @ s\<rparr>,
                    \<lparr>role = ''user'', content = question request\<rparr>]"
  have msgs: "draft_messages (system_prefix @ s) (question request) = ?msgs s" for s
    by (simp add: draft_messages_def system_prefix_def)
  have ctxA: "?ctxA = join '' '' (map chunk_text
               (select_chunks l2_distance (document_id request) qv 5 (file_chunks w)))"
    by (simp only: fr5)
  have ctxB: "?ctxB = join '' '' (map chunk_text
               (select_chunks l2_distance (document_id request) qv 10 (file_chunks w)))"
    by (simp only: fr10)
  note body = main_ask_try_retrieved [OF emb ctxB]
  have a: "join '' '' (map chunk_text ([] :: 'v FileChunk list)) = []"
    by simp
  have b: "join '' '' (map chunk_text (c # cs))
            = chunk_text c @ concat (map (\<lambda>d. '' '' @ chunk_text d) cs)"
    for c :: "'v FileChunk" and cs
    by (simp add: join_space_Cons comp_def)
  have c: "filter is_chat_call
         (new_events w (snd (main_ask_question l2_distance cl request w)))
        = [ChatCompletionsCreate primary_model (?msgs ?ctxB)]"
  proof -
    have "filter is_chat_call
            (new_events w (snd (main_ask_question l2_distance cl request w)))
          = [ChatCompletionsCreate primary_model
               (draft_messages (system_prefix @ ?ctxB) (question request))]"
      using key
      by (simp add: main_ask_question_def body new_events_def split: sum.split list.split)
    then show ?thesis by (simp only: msgs)
  qed
  have d: "fst (main_ask_question l2_distance cl request w) = Inr answer"
    if "chat_completions_create cl primary_model (?msgs ?ctxB) = Inr (answer # others)"
    for answer others
  proof -
    from that have "chat_completions_create cl primary_model
          (draft_messages (system_prefix @ ?ctxB) (question request)) = Inr (answer # others)"
      by (simp only: msgs)
    with key show ?thesis
      by (simp add: main_ask_question_def body)
  qed
  obtain later where calls:
    "trace (snd (ensemble_ask_try l2_distance cl request w))
       = trace w @
          [EmbeddingsCreate embedding_model (question request),
           Select (document_id request) qv 5,
           EmbeddingsCreate embedding_model (question request),
           Select (document_id request) qv 10,
           LoggingInfo (''Primary Context: '' @ ?ctxA),
           LoggingInfo (''Secondary Context: '' @ ?ctxB),
           ChatCompletionsCreate primary_model
             (draft_messages (system_prefix @ ?ctxA) (question request))]
          @ (case chat_completions_create cl primary_model
                    (draft_messages (system_prefix @ ?ctxA) (question request)) of
               Inl e \<Rightarrow> []
             | Inr choices \<Rightarrow>
                 ChatCompletionsCreate secondary_model
                   (draft_messages (system_prefix @ ?ctxB) (question request)) # later)"
    using ensemble_ask_try_calls [OF emb ctxA ctxB] by blast
  obtain extra where extra:
    "trace (snd (ensemble_ask_question l2_distance cl request w))
       = trace (snd (ensemble_ask_try l2_distance cl request w)) @ extra"
    "filter is_chat_call extra = []"
  proof (cases "ensemble_ask_try l2_distance cl request w")
    case (Pair r w')
    show ?thesis
    proof (cases r)
      case (Inl e)
      with Pair key have
        "trace (snd (ensemble_ask_question l2_distance cl request w))
           = trace (snd (ensemble_ask_try l2_distance cl request w)) @ [LoggingError e]"
        by (simp add: ensemble_ask_question_def)
      then show ?thesis by (rule that) simp
    next
      case (Inr answer)
      with Pair key have
        "trace (snd (ensemble_ask_question l2_distance cl request w))
           = trace (snd (ensemble_ask_try l2_distance cl request w)) @ []"
        by (simp add: ensemble_ask_question_def)
      then show ?thesis by (rule that) simp
    qed
  qed
  have e: "take 1 (filter is_chat_call
         (new_events w (snd (ensemble_ask_question l2_distance cl request w))))
        = [ChatCompletionsCreate primary_model (?msgs ?ctxA)]"
  proof -
    have "take 1 (filter is_chat_call
            (new_events w (snd (ensemble_ask_question l2_distance cl request w))))
          = [ChatCompletionsCreate primary_model
               (draft_messages (system_prefix @ ?ctxA) (question request))]"
      by (simp add: new_events_def extra calls)
    then show ?thesis by (simp only: msgs)
  qed
  have f: "take 2 (filter is_chat_call
                 (new_events w (snd (ensemble_ask_question l2_distance cl request w))))
               = [ChatCompletionsCreate primary_model (?msgs ?ctxA),
                  ChatCompletionsCreate secondary_model (?msgs ?ctxB)]"
    if "chat_completions_create cl primary_model (?msgs ?ctxA) = Inr choices"
    for choices
  proof -
    from that have "chat_completions_create cl primary_model
          (draft_messages (system_prefix @ ?ctxA) (question request)) = Inr choices"
      by (simp only: msgs)
    then have "take 2 (filter is_chat_call
            (new_events w (snd (ensemble_ask_question l2_distance cl request w))))
          = [ChatCompletionsCreate primary_model
               (draft_messages (system_prefix @ ?ctxA) (question request)),
             ChatCompletionsCreate secondary_model
               (draft_messages (system_prefix @ ?ctxB) (question request))]"
      by (simp add: new_events_def extra calls)
    then show ?thesis by (simp only: msgs)
  qed
  have none: "?ctxB = []"
    if "filter (\<lambda>c. chunk_file_id c = document_id request) (file_chunks w) = []"
    using that by (simp add: fr10 select_chunks_def)
  have g1: "filter is_chat_call
            (new_events w (snd (main_ask_question l2_distance cl request w)))
           = [ChatCompletionsCreate primary_model
                [\<lparr>role = ''system'', content = ?pfx\<rparr>,
                 \<lparr>role = ''user'', content = question request\<rparr>]]"
    if "filter (\<lambda>c. chunk_file_id c = document_id request) (file_chunks w) = []"
    using c by (simp only: none [OF that] append_Nil2)
  have g2: "fst (main_ask_question l2_distance cl request w) = Inr answer"
    if "filter (\<lambda>c. chunk_file_id c = document_id request) (file_chunks w) = []"
      and "chat_completions_create cl primary_model
             [\<lparr>role = ''system'', content = ?pfx\<rparr>,
              \<lparr>role = ''user'', content = question request\<rparr>] = Inr (answer # others)"
    for answer others
  proof (rule d)
    show "chat_completions_create cl primary_model (?msgs ?ctxB) = Inr (answer # others)"
      using that(2) by (simp only: none [OF that(1)] append_Nil2)
  qed
  show ?thesis
    by (intro conjI allI impI) (rule a b c e | erule d f g1 | erule (1) g2)+
qed


theorem context_assembly_witness:
  "filter is_chat_call
     (new_events world1 (snd (main_ask_question dist1 stub_client cats_request world1)))
     = [ChatCompletionsCreate primary_model
          [\<lparr>role = ''system'',
            content = ''You are a helpful assistant. Here is the context to use to reply to the user question: '' @ ''cats are mammals dogs are loyal fish swim''\<rparr>,
           \<lparr>role = ''user'', content = ''what are cats?''\<rparr>]]
   \<and> fst (main_ask_question dist1 stub_client cats_request world1)
       = Inr (''answer of '' @ primary_model)
   \<and> take 2 (filter is_chat_call
        (new_events world1 (snd (ensemble_ask_question dist1 stub_client cats_request world1))))
     = [ChatCompletionsCreate primary_model
          [\<lparr>role = ''system'',
            content = ''You are a helpful assistant. Here is the context to use to reply to the user question: '' @ ''cats are mammals dogs are loyal fish swim''\<rparr>,
           \<lparr>role = ''user'', content = ''what are cats?''\<rparr>],
        ChatCompletionsCreate secondary_model
          [\<lparr>role = ''system'',
            content = ''You are a helpful assistant. Here is the context to use to reply to the user question: '' @ ''cats are mammals dogs are loyal fish swim''\<rparr>,
           \<lparr>role = ''user'', content = ''what are cats?''\<rparr>]]
   \<and> filter is_chat_call
       (new_events world1 (snd (main_ask_question dist1 stub_client empty_request world1)))
     = [ChatCompletionsCreate primary_model
          [\<lparr>role = ''system'',
            content = ''You are a helpful assistant. Here is the context to use to reply to the user question: ''\<rparr>,
           \<lparr>role = ''user'', content = ''what are cats?''\<rparr>]]
   \<and> fst (main_ask_question dist1 stub_client empty_request world1)
       = Inr (''answer of '' @ primary_model)"
proof -
  have key: "environ world1 ''NEBIUS_API_KEY'' = Some ''secret''"
    by (simp add: world1_def world_of_def key_env_def)
  have emb: "embeddings_create stub_client embedding_model q = Inr (0 # [])" for q
    by (simp add: stub_client_def)
  have chat: "chat_completions_create stub_client m msgs = Inr ((''answer of '' @ m) # [])"
    for m msgs
    by (simp add: stub_client_def)
  have ctx: "join '' '' (map chunk_text
               (select_chunks dist1 (document_id cats_request) 0 5 (file_chunks world1)))
              = ''cats are mammals dogs are loyal fish swim''"
       "join '' '' (map chunk_text
               (select_chunks dist1 (document_id cats_request) 0 10 (file_chunks world1)))
              = ''cats are mammals dogs are loyal fish swim''"
    by (simp_all add: select_chunks_def world1_def world_of_def cats_request_def dist1_def
          F1_def F2_def F3_def G1_def)
  have none: "filter (\<lambda>c. chunk_file_id c = document_id empty_request) (file_chunks world1)
                = []"
    by (simp add: world1_def world_of_def empty_request_def F1_def F2_def F3_def G1_def)
  note cats = context_assembly [where request = cats_request and l2_distance = dist1,
                   OF key emb refl refl, unfolded ctx]
  note empty = context_assembly [where request = empty_request and l2_distance = dist1,
                   OF key emb refl refl]
  have q: "question cats_request = ''what are cats?''"
          "question empty_request = ''what are cats?''"
    by (simp_all add: cats_request_def empty_request_def)
  from cats have c1: "filter is_chat_call
     (new_events world1 (snd (main_ask_question dist1 stub_client cats_request world1)))
     = [ChatCompletionsCreate primary_model
          [\<lparr>role = ''system'',
            content = ''You are a helpful assistant. Here is the context to use to reply to the user question: '' @ ''cats are mammals dogs are loyal fish swim''\<rparr>,
           \<lparr>role = ''user'', content = ''what are cats?''\<rparr>]]"
    unfolding q by (elim conjE)
  from cats have c2: "fst (main_ask_question dist1 stub_client cats_request world1)
       = Inr (''answer of '' @ primary_model)"
    using chat by (elim conjE) blast
  from cats have c3: "take 2 (filter is_chat_call
        (new_events world1 (snd (ensemble_ask_question dist1 stub_client cats_request world1))))
     = [ChatCompletionsCreate primary_model
          [\<lparr>role = ''system'',
            content = ''You are a helpful assistant. Here is the context to use to reply to the user question: '' @ ''cats are mammals dogs are loyal fish swim''\<rparr>,
           \<lparr>role = ''user'', content = ''what are cats?''\<rparr>],
        ChatCompletionsCreate secondary_model
          [\<lparr>role = ''system'',
            content = ''You are a helpful assistant. Here is the context to use to reply to the user question: '' @ ''cats are mammals dogs are loyal fish swim''\<rparr>,
           \<lparr>role = ''user'', content = ''what are cats?''\<rparr>]]"
    unfolding q using chat by (elim conjE) blast
  from empty none have e1: "filter is_chat_call
       (new_events world1 (snd (main_ask_question dist1 stub_client empty_request world1)))
     = [ChatCompletionsCreate primary_model
          [\<lparr>role = ''system'',
            content = ''You are a helpful assistant. Here is the context to use to reply to the user question: ''\<rparr>,
           \<lparr>role = ''user'', content = ''what are cats?''\<rparr>]]"
    unfolding q by (elim conjE) blast
  from empty none have e2: "fst (main_ask_question dist1 stub_client empty_request world1)
       = Inr (''answer of '' @ primary_model)"
    using chat by (elim conjE) blast
  from c1 c2 c3 e1 e2 show ?thesis
    by (intro conjI)
qed

text \<open>
  C7. A request to the ensemble service that passes the key check and whose question
  embeds to \<open>qv\<close> makes exactly two retrieval passes, for the same document and the same
  question: one with result count 5, then one with result count 10. The single-model
  service makes one, with result count 10.
\<close>

theorem ask_question_retrieval_passes:
  assumes key: "environ w ''NEBIUS_API_KEY'' = Some api_key"
    and emb: "embeddings_create cl embedding_model (question request) = Inr (qv # rest)"
  shows "filter is_retrieval_step
           (new_events w (snd (ensemble_ask_question l2_distance cl request w)))
           = [EmbeddingsCreate embedding_model (question request),
              Select (document_id request) qv 5,
              EmbeddingsCreate embedding_model (question request),
              Select (document_id request) qv 10]
         \<and> filter is_retrieval_step
             (new_events w (snd (main_ask_question l2_distance cl request w)))
           = [EmbeddingsCreate embedding_model (question request),
              Select (document_id request) qv 10]"
proof
  show "filter is_retrieval_step
           (new_events w (snd (ensemble_ask_question l2_distance cl request w)))
           = [EmbeddingsCreate embedding_model (question request),
              Select (document_id request) qv 5,
              EmbeddingsCreate embedding_model (question request),
              Select (document_id request) qv 10]"
    using key
    by (simp add: ensemble_ask_question_def ensemble_ask_try_def
          ensemble_get_similar_chunks_ok [OF emb] Let_def emit_def new_events_def
          split: sum.split list.split)
  show "filter is_retrieval_step
             (new_events w (snd (main_ask_question l2_distance cl request w)))
           = [EmbeddingsCreate embedding_model (question request),
              Select (document_id request) qv 10]"
    using key
    by (simp add: main_ask_question_def main_ask_try_def
          main_get_similar_chunks_ok [OF emb] Let_def emit_def new_events_def
          split: sum.split list.split)
qed

theorem ask_question_retrieval_passes_witness:
  "filter is_retrieval_step
     (new_events world1 (snd (ensemble_ask_question dist1 stub_client cats_request world1)))
     = [EmbeddingsCreate embedding_model ''what are cats?'', Select 1 0 5,
        EmbeddingsCreate embedding_model ''what are cats?'', Select 1 0 10]
   \<and> filter is_retrieval_step
       (new_events world1 (snd (main_ask_question dist1 stub_client cats_request world1)))
     = [EmbeddingsCreate embedding_model ''what are cats?'', Select 1 0 10]"
proof -
  have key: "environ world1 ''NEBIUS_API_KEY'' = Some ''secret''"
    by (simp add: world1_def world_of_def key_env_def)
  have emb: "embeddings_create stub_client embedding_model (question cats_request)
               = Inr (0 # [])"
    by (simp add: stub_client_def)
  from ask_question_retrieval_passes [OF key emb, of dist1]
  show ?thesis by (simp add: cats_request_def)
qed

end
